theory Spec2Isabelle
  imports Complex_Main "HOL-Library.List_Lexorder" "HOL-Library.Sublist"
begin

section \<open>Python strings and the library functions the scripts call\<close>

text \<open>
  A Python \<open>str\<close> is a sequence of Unicode code points; a code point is a natural
  number here, so that the Japanese labels of the scraped site are single characters as
  they are in Python. \<open>asc\<close> writes the ASCII part of a literal.
\<close>

type_synonym ustring = "nat list"

definition asc :: "string \<Rightarrow> ustring" where
  "asc s = map of_char s"

text \<open>
  \<open>str.isspace\<close>, which is also the class \<open>\\s\<close> of \<open>re\<close> on \<open>str\<close> patterns:
  the white space of the Unicode character database.
\<close>

definition py_isspace :: "nat \<Rightarrow> bool" where
  "py_isspace c \<longleftrightarrow>
     (0x09 \<le> c \<and> c \<le> 0x0D) \<or> (0x1C \<le> c \<and> c \<le> 0x20) \<or> c = 0x85 \<or> c = 0xA0 \<or>
     c = 0x1680 \<or> (0x2000 \<le> c \<and> c \<le> 0x200A) \<or> c = 0x2028 \<or> c = 0x2029 \<or>
     c = 0x202F \<or> c = 0x205F \<or> c = 0x3000"

text \<open>
  The class \<open>\\d\<close> of \<open>re\<close> on \<open>str\<close> patterns: the decimal digits of Unicode
  (category Nd), which come in runs of ten; the list holds the zero of each run
  (Unicode 14.0, the database of CPython 3.11).
\<close>

definition nd_zeros :: "nat list" where
  "nd_zeros = [48, 1632, 1776, 1984, 2406, 2534, 2662, 2790, 2918, 3046, 3174, 3302,
     3430, 3558, 3664, 3792, 3872, 4160, 4240, 6112, 6160, 6470, 6608, 6784, 6800, 6992,
     7088, 7232, 7248, 42528, 43216, 43264, 43472, 43504, 43600, 44016, 65296, 66720,
     68912, 69734, 69872, 69942, 70096, 70384, 70736, 70864, 71248, 71360, 71472, 71904,
     72016, 72784, 73040, 73120, 92768, 92864, 93008, 120782, 120792, 120802, 120812,
     120822, 123200, 123632, 125264, 130032]"

definition py_isdecimal :: "nat \<Rightarrow> bool" where
  "py_isdecimal c \<longleftrightarrow> list_ex (\<lambda>z. z \<le> c \<and> c \<le> z + 9) nd_zeros"

text \<open>\<open>str.strip()\<close> with no argument removes leading and trailing white space.\<close>

definition py_strip :: "ustring \<Rightarrow> ustring" where
  "py_strip s = rev (dropWhile py_isspace (rev (dropWhile py_isspace s)))"

text \<open>\<open>sub in s\<close> on strings: \<open>sub\<close> occurs in \<open>s\<close> as a contiguous substring.\<close>

fun py_in :: "ustring \<Rightarrow> ustring \<Rightarrow> bool" where
  "py_in sub [] = (sub = [])"
| "py_in sub (x # xs) = (take (length sub) (x # xs) = sub \<or> py_in sub xs)"

text \<open>
  \<open>s.split(sep)\<close> for a separator of one character: the pieces between the
  separators, empty pieces kept, so that the result is never empty.
\<close>

fun py_split :: "nat \<Rightarrow> ustring \<Rightarrow> ustring list" where
  "py_split sep [] = [[]]"
| "py_split sep (x # xs) =
     (if x = sep then [] # py_split sep xs
      else (case py_split sep xs of
              [] \<Rightarrow> [[x]]
            | p # ps \<Rightarrow> (x # p) # ps))"

subsection \<open>Regular expressions\<close>

text \<open>
  The patterns of the scripts use literal characters, character classes, the
  quantifiers \<open>*\<close>, \<open>+\<close>, \<open>{n}\<close> and the lazy \<open>*?\<close>, \<open>+?\<close> on a single character or
  class, one optional non-capturing group and at most one capturing group. A pattern is
  a list of items, read from left to right as the pattern string is.
\<close>

datatype cset =
    COne nat            \<comment> \<open>a literal character\<close>
  | COf "nat list"      \<comment> \<open>\<open>[...]\<close>\<close>
  | CNot "nat list"     \<comment> \<open>\<open>[^...]\<close>\<close>
  | CDigit              \<comment> \<open>\<open>\\d\<close>\<close>
  | CSpace              \<comment> \<open>\<open>\\s\<close>\<close>
  | CDot                \<comment> \<open>\<open>.\<close>: any character but a newline\<close>
  | CAny                \<comment> \<open>\<open>.\<close> under \<open>re.DOTALL\<close>\<close>

fun cmatch :: "cset \<Rightarrow> nat \<Rightarrow> bool" where
  "cmatch (COne c) x = (x = c)"
| "cmatch (COf cs) x = (x \<in> set cs)"
| "cmatch (CNot cs) x = (x \<notin> set cs)"
| "cmatch CDigit x = py_isdecimal x"
| "cmatch CSpace x = py_isspace x"
| "cmatch CDot x = (x \<noteq> 10)"
| "cmatch CAny x = True"

datatype item =
    Ch cset               \<comment> \<open>one character of the class\<close>
  | Star cset             \<comment> \<open>\<open>c*\<close>, greedy\<close>
  | StarLazy cset         \<comment> \<open>\<open>c*?\<close>\<close>
  | Opt "item list"       \<comment> \<open>\<open>(?:...)?\<close>, greedy\<close>
  | GOpen                 \<comment> \<open>\<open>(\<close> of group 1\<close>
  | GClose                \<comment> \<open>\<open>)\<close> of group 1\<close>

type_synonym pattern = "item list"

definition lit :: "ustring \<Rightarrow> pattern" where
  "lit s = map (\<lambda>c. Ch (COne c)) s"

definition plus :: "cset \<Rightarrow> pattern" where
  \<comment> \<open>\<open>c+\<close> is \<open>cc*\<close>\<close>
  "plus c = [Ch c, Star c]"

definition plus_lazy :: "cset \<Rightarrow> pattern" where
  \<comment> \<open>\<open>c+?\<close> is \<open>cc*?\<close>\<close>
  "plus_lazy c = [Ch c, StarLazy c]"

definition times :: "nat \<Rightarrow> cset \<Rightarrow> pattern" where
  \<comment> \<open>\<open>c{n}\<close>\<close>
  "times n c = replicate n (Ch c)"

text \<open>
  The weight of a pattern bounds the unfoldings of the matcher at one position.
\<close>

fun weight :: "item \<Rightarrow> nat" where
  "weight (Opt p) = Suc (sum_list (map weight p))"
| "weight (Ch c) = 1"
| "weight (Star c) = 1"
| "weight (StarLazy c) = 1"
| "weight GOpen = 1"
| "weight GClose = 1"

text \<open>
  The backtracking matcher of \<open>re\<close>: \<open>bt p s g c\<close> matches the pattern \<open>p\<close> at the
  start of \<open>s\<close>; \<open>g\<close> is the text from the opening of group 1 on, \<open>c\<close> the text group 1
  captured. The result is the first match in the order in which \<open>re\<close> tries them (a
  greedy quantifier takes as much as it can and gives back one character at a time, a
  lazy one takes as little as it can; the optional group is tried first), as the text
  left after the match with the capture, or \<open>None\<close> when no match starts here.
\<close>

function bt :: "pattern \<Rightarrow> ustring \<Rightarrow> ustring \<Rightarrow> ustring option \<Rightarrow> (ustring \<times> ustring option) option"
  where
  "bt [] s g c = Some (s, c)"
| "bt (GOpen # p) s g c = bt p s s c"
| "bt (GClose # p) s g c = bt p s g (Some (take (length g - length s) g))"
| "bt (Ch k # p) [] g c = None"
| "bt (Ch k # p) (x # xs) g c = (if cmatch k x then bt p xs g c else None)"
| "bt (Star k # p) [] g c = bt p [] g c"
| "bt (Star k # p) (x # xs) g c =
     (if cmatch k x then
        (case bt (Star k # p) xs g c of
           Some r \<Rightarrow> Some r
         | None \<Rightarrow> bt p (x # xs) g c)
      else bt p (x # xs) g c)"
| "bt (StarLazy k # p) [] g c = bt p [] g c"
| "bt (StarLazy k # p) (x # xs) g c =
     (case bt p (x # xs) g c of
        Some r \<Rightarrow> Some r
      | None \<Rightarrow> (if cmatch k x then bt (StarLazy k # p) xs g c else None))"
| "bt (Opt q # p) s g c =
     (case bt (q @ p) s g c of
        Some r \<Rightarrow> Some r
      | None \<Rightarrow> bt p s g c)"
  by pat_completeness auto
termination
  by (relation "measures [\<lambda>(p, s, g, c). sum_list (map weight p), \<lambda>(p, s, g, c). length s]")
     simp_all

text \<open>\<open>re.match\<close>: a match at the start of the text; the value is group 1.\<close>

definition re_match :: "pattern \<Rightarrow> ustring \<Rightarrow> ustring option" where
  "re_match p s = (case bt p s [] None of None \<Rightarrow> None | Some (r, c) \<Rightarrow> c)"

text \<open>
  \<open>re.search\<close>: the leftmost position at which a match starts; the value is the text left
  after the match and group 1.
\<close>

fun re_search :: "pattern \<Rightarrow> ustring \<Rightarrow> (ustring \<times> ustring option) option" where
  "re_search p [] = bt p [] [] None"
| "re_search p (x # xs) =
     (case bt p (x # xs) [] None of
        Some r \<Rightarrow> Some r
      | None \<Rightarrow> re_search p xs)"

definition search_group :: "pattern \<Rightarrow> ustring \<Rightarrow> ustring option" where
  "search_group p s = (case re_search p s of None \<Rightarrow> None | Some (r, c) \<Rightarrow> c)"

text \<open>
  \<open>re.findall\<close> for a pattern with one group: group 1 of every match, the matches
  found from left to right and not overlapping. \<open>skip\<close> counts the characters that are
  still inside the last match.
\<close>

fun findall_from :: "pattern \<Rightarrow> nat \<Rightarrow> ustring \<Rightarrow> ustring list" where
  "findall_from p skip [] = []"
| "findall_from p (Suc skip) (x # xs) = findall_from p skip xs"
| "findall_from p 0 (x # xs) =
     (case bt p (x # xs) [] None of
        None \<Rightarrow> findall_from p 0 xs
      | Some (r, c) \<Rightarrow>
          (case c of None \<Rightarrow> [] | Some v \<Rightarrow> [v]) @
          findall_from p (length xs - length r) xs)"

definition re_findall :: "pattern \<Rightarrow> ustring \<Rightarrow> ustring list" where
  "re_findall p s = findall_from p 0 s"

text \<open>
  \<open>re.sub\<close> with a constant replacement: every match, found from left to right and
  not overlapping, is replaced. The patterns of the scripts match no empty text; on an
  empty match the replacement is inserted and the next character copied.
\<close>

fun sub_from :: "pattern \<Rightarrow> ustring \<Rightarrow> nat \<Rightarrow> ustring \<Rightarrow> ustring" where
  "sub_from p repl skip [] = []"
| "sub_from p repl (Suc skip) (x # xs) = sub_from p repl skip xs"
| "sub_from p repl 0 (x # xs) =
     (case bt p (x # xs) [] None of
        None \<Rightarrow> x # sub_from p repl 0 xs
      | Some (r, c) \<Rightarrow>
          (if length r = Suc (length xs) then repl @ x # sub_from p repl 0 xs
           else repl @ sub_from p repl (length xs - length r) xs))"

definition re_sub :: "pattern \<Rightarrow> ustring \<Rightarrow> ustring \<Rightarrow> ustring" where
  "re_sub p repl s = sub_from p repl 0 s"


subsection \<open>Exceptions, JSON values and the other library functions\<close>

text \<open>The exception classes that the modelled code can meet; all are subclasses of \<open>Exception\<close>.\<close>

datatype py_error =
    JSONDecodeError | KeyError | IndexError | TypeError | ValueError | OverflowError
  | RecursionError | OSError | UnicodeDecodeError

text \<open>
  The values that \<open>json.loads\<close> returns; \<open>'f\<close> is the type of Python's floats, and
  an object is the list of its items.
\<close>

datatype 'f json =
    JNull | JBool bool | JInt int | JFloat 'f | JStr ustring
  | JArr "'f json list" | JObj "(ustring \<times> 'f json) list"

text \<open>
  Library functions that are taken as parameters: \<open>json.loads\<close>, the parsing of a
  string and the conversion of an integer by \<open>float\<close> (\<open>None\<close> where Python raises
  \<open>ValueError\<close> and \<open>OverflowError\<close>), the test of a float against zero, and
  \<open>urllib.parse.quote\<close> and \<open>unquote\<close>.
\<close>

record 'f pylib =
  json_loads :: "ustring \<Rightarrow> py_error + 'f json"
  str_to_float :: "ustring \<Rightarrow> 'f option"
  int_to_float :: "int \<Rightarrow> 'f option"
  float_is_zero :: "'f \<Rightarrow> bool"
  quote :: "ustring \<Rightarrow> ustring"
  unquote :: "ustring \<Rightarrow> ustring"

text \<open>Truth value of a JSON value, as \<open>data and ...\<close> tests it.\<close>

fun truthy :: "'f pylib \<Rightarrow> 'f json \<Rightarrow> bool" where
  "truthy lib JNull = False"
| "truthy lib (JBool b) = b"
| "truthy lib (JInt i) = (i \<noteq> 0)"
| "truthy lib (JFloat f) = (\<not> float_is_zero lib f)"
| "truthy lib (JStr s) = (s \<noteq> [])"
| "truthy lib (JArr xs) = (xs \<noteq> [])"
| "truthy lib (JObj kvs) = (kvs \<noteq> [])"

text \<open>\<open>len(data)\<close>: numbers, booleans and \<open>None\<close> have no length.\<close>

fun py_len :: "'f json \<Rightarrow> py_error + nat" where
  "py_len (JStr s) = Inr (length s)"
| "py_len (JArr xs) = Inr (length xs)"
| "py_len (JObj kvs) = Inr (length kvs)"
| "py_len v = Inl TypeError"

text \<open>
  \<open>data[0]\<close>: the first element of a list or string; on a dict the key \<open>0\<close>, which no
  JSON object has, since its keys are strings; not defined on the other values.
\<close>

fun index0 :: "'f json \<Rightarrow> py_error + 'f json" where
  "index0 (JArr []) = Inl IndexError"
| "index0 (JArr (x # xs)) = Inr x"
| "index0 (JStr []) = Inl IndexError"
| "index0 (JStr (c # cs)) = Inr (JStr [c])"
| "index0 (JObj kvs) = Inl KeyError"
| "index0 v = Inl TypeError"

text \<open>\<open>v[key]\<close> for a string key: defined on dicts only.\<close>

fun getitem :: "'f json \<Rightarrow> ustring \<Rightarrow> py_error + 'f json" where
  "getitem (JObj kvs) key = (case map_of kvs key of None \<Rightarrow> Inl KeyError | Some v \<Rightarrow> Inr v)"
| "getitem v key = Inl TypeError"

text \<open>The builtin \<open>float\<close> on a JSON value.\<close>

fun py_float :: "'f pylib \<Rightarrow> 'f json \<Rightarrow> py_error + 'f" where
  "py_float lib (JFloat f) = Inr f"
| "py_float lib (JStr s) = (case str_to_float lib s of None \<Rightarrow> Inl ValueError | Some f \<Rightarrow> Inr f)"
| "py_float lib (JInt i) = (case int_to_float lib i of None \<Rightarrow> Inl OverflowError | Some f \<Rightarrow> Inr f)"
| "py_float lib (JBool b) =
     (case int_to_float lib (if b then 1 else 0) of None \<Rightarrow> Inl OverflowError | Some f \<Rightarrow> Inr f)"
| "py_float lib v = Inl TypeError"

text \<open>
  \<open>subprocess.run(..., capture_output=True, text=True)\<close> either returns a completed
  process, with the exit status of the command and its decoded standard output, or
  raises (the command cannot be started, the output cannot be decoded). The world of a
  run gives the outcome of its \<open>n\<close>-th call of \<open>curl\<close>, for the URL that is asked.
\<close>

datatype proc = Completed int ustring | Raised py_error

type_synonym world = "nat \<Rightarrow> ustring \<Rightarrow> proc"

section \<open>scrape-shrines.py\<close>

definition BASE_URL :: ustring where
  "BASE_URL = asc ''http://ichinomiya-junpai.jp''"

text \<open>
  \<open>fetch\<close> returns the standard output of \<open>curl\<close>; the exit status is not looked at.
  The second component of the result counts the calls of \<open>curl\<close>.
\<close>

definition fetch :: "world \<Rightarrow> nat \<Rightarrow> ustring \<Rightarrow> (py_error + ustring) \<times> nat" where
  "fetch w n url =
     (case w n url of
        Completed rc out \<Rightarrow> (Inr out, Suc n)
      | Raised e \<Rightarrow> (Inl e, Suc n))"

subsection \<open>extract_links\<close>

text \<open>The pattern \<^verbatim>\<open>href="(/alllist/[^"]+/[^"]+/)"\<close>; 34 is the double quote, 47 the slash.\<close>

definition link_pattern :: pattern where
  "link_pattern =
     lit (asc ''href='') @ [Ch (COne 34), GOpen] @ lit (asc ''/alllist/'') @
     plus (CNot [34]) @ [Ch (COne 47)] @ plus (CNot [34]) @ [Ch (COne 47), GClose, Ch (COne 34)]"

definition is_image :: "ustring \<Rightarrow> bool" where
  "is_image link \<longleftrightarrow> list_ex (\<lambda>ext. py_in ext link) [asc ''.jpg'', asc ''.png'', asc ''.gif'']"

definition extract_links :: "ustring \<Rightarrow> ustring list" where
  "extract_links html =
     (let links = re_findall link_pattern html;
          valid_links = filter (\<lambda>link. \<not> is_image link) links
      in sort (remdups valid_links))"

subsection \<open>extract_region\<close>

definition extract_region :: "'f pylib \<Rightarrow> ustring \<Rightarrow> ustring" where
  "extract_region lib link =
     (let decoded = unquote lib link;
          parts = py_split 47 decoded
      in if length parts \<ge> 3 then parts ! 2 else [])"

subsection \<open>geocode_shrine\<close>

text \<open>Sequencing of two steps of which the first may raise.\<close>

definition bind_err :: "py_error + 'a \<Rightarrow> ('a \<Rightarrow> py_error + 'b) \<Rightarrow> py_error + 'b" where
  "bind_err m f = (case m of Inl e \<Rightarrow> Inl e | Inr x \<Rightarrow> f x)"

text \<open>\<open>float(data[0][key])\<close>\<close>

definition coordinate :: "'f pylib \<Rightarrow> 'f json \<Rightarrow> ustring \<Rightarrow> py_error + 'f" where
  "coordinate lib data key =
     bind_err (index0 data) (\<lambda>d. bind_err (getitem d key) (\<lambda>v. py_float lib v))"

text \<open>The body of the \<open>try\<close> block: \<open>Inr None\<close> when it falls through to the last line.\<close>

definition geocode_try :: "'f pylib \<Rightarrow> ustring \<Rightarrow> py_error + ('f \<times> 'f) option" where
  "geocode_try lib out =
     bind_err (json_loads lib out) (\<lambda>data.
       if truthy lib data then
         bind_err (py_len data) (\<lambda>l.
           if l > 0 then
             bind_err (coordinate lib data (asc ''lat'')) (\<lambda>lat.
             bind_err (coordinate lib data (asc ''lon'')) (\<lambda>lon.
               Inr (Some (lat, lon))))
           else Inr None)
       else Inr None)"

text \<open>\<open>except (json.JSONDecodeError, KeyError, IndexError): pass\<close>\<close>

definition caught :: "py_error \<Rightarrow> bool" where
  "caught e \<longleftrightarrow> e = JSONDecodeError \<or> e = KeyError \<or> e = IndexError"

definition geocode_url :: "'f pylib \<Rightarrow> ustring \<Rightarrow> ustring" where
  "geocode_url lib name =
     (let query = name @ asc '' Japan'';
          encoded = quote lib query
      in asc ''https://nominatim.openstreetmap.org/search?format=json&q='' @ encoded @
         asc ''&limit=1'')"

text \<open>
  The result is \<open>Inr None\<close> for \<open>(None, None)\<close>, \<open>Inr (Some (lat, lon))\<close> for a pair
  of floats, and \<open>Inl e\<close> when the exception \<open>e\<close> leaves the function; the call of
  \<open>curl\<close> is made before the \<open>try\<close> block.
\<close>

definition geocode_shrine ::
  "'f pylib \<Rightarrow> world \<Rightarrow> nat \<Rightarrow> ustring \<Rightarrow> (py_error + ('f \<times> 'f) option) \<times> nat" where
  "geocode_shrine lib w n name =
     (if name = [] then (Inr None, n)
      else (case w n (geocode_url lib name) of
              Raised e \<Rightarrow> (Inl e, Suc n)
            | Completed rc out \<Rightarrow>
                (case geocode_try lib out of
                   Inl e \<Rightarrow> (if caught e then Inr None else Inl e, Suc n)
                 | Inr r \<Rightarrow> (Inr r, Suc n))))"


subsection \<open>extract_shrine_info\<close>

text \<open>
  The labels of the detail page, as code points: 60 is \<open><\<close>, 62 is \<open>>\<close>.
\<close>

definition label_name :: ustring where
  "label_name = [0x795E, 0x793E, 0x540D]"

definition label_reading :: ustring where
  "label_reading = [0x795E, 0x793E, 0x540D] @ asc ''('' @ [0x8AAD, 0x307F, 0x65B9] @ asc '')''"

definition label_province :: ustring where
  "label_province = [0x65E7, 0x56FD, 0x540D]"

definition label_deity :: ustring where
  "label_deity = [0x796D, 0x795E]"

definition label_virtue :: ustring where
  "label_virtue = [0x5FA1, 0x795E, 0x5FB3]"

definition label_address :: ustring where
  "label_address = [0x6240, 0x5728, 0x5730]"

definition label_tel :: ustring where
  "label_tel = [0x96FB, 0x8A71, 0x756A, 0x53F7]"

definition postal_mark :: nat where
  "postal_mark = 0x3012"

definition pref_suffixes :: "nat list" where
  "pref_suffixes = [0x90FD, 0x9053, 0x5E9C, 0x770C]"

text \<open>The common start \<^verbatim>\<open><td>LABEL</td>\s*<td[^>]*>\<close> of the field patterns.\<close>

definition cell_start :: "ustring \<Rightarrow> pattern" where
  "cell_start label =
     lit (asc ''<td>'' @ label @ asc ''</td>'') @ [Star CSpace] @ lit (asc ''<td'') @
     [Star (CNot [62]), Ch (COne 62)]"

text \<open>\<^verbatim>\<open><td>LABEL</td>\s*<td[^>]*>(?:<a[^>]*>)?([^<]+)\<close>\<close>

definition name_pattern :: pattern where
  "name_pattern =
     cell_start label_name @
     [Opt (lit (asc ''<a'') @ [Star (CNot [62]), Ch (COne 62)]), GOpen] @ plus (CNot [60]) @
     [GClose]"

text \<open>\<^verbatim>\<open><td>LABEL</td>\s*<td[^>]*>([^<]+)\<close>\<close>

definition field_pattern :: "ustring \<Rightarrow> pattern" where
  "field_pattern label = cell_start label @ [GOpen] @ plus (CNot [60]) @ [GClose]"

text \<open>\<^verbatim>\<open><td>LABEL</td>\s*<td[^>]*>(.*?)</td>\<close> with \<open>re.DOTALL\<close>\<close>

definition address_pattern :: pattern where
  "address_pattern =
     cell_start label_address @ [GOpen, StarLazy CAny, GClose] @ lit (asc ''</td>'')"

text \<open>\<^verbatim>\<open><[^>]+>\<close>\<close>

definition tag_pattern :: pattern where
  "tag_pattern = [Ch (COne 60)] @ plus (CNot [62]) @ [Ch (COne 62)]"

text \<open>\<^verbatim>\<open>MARK\d{3}-\d{4}\s*\<close>, where \<open>MARK\<close> is the postal mark and 45 the hyphen\<close>

definition postal_strip_pattern :: pattern where
  "postal_strip_pattern =
     [Ch (COne postal_mark)] @ times 3 CDigit @ [Ch (COne 45)] @ times 4 CDigit @ [Star CSpace]"

text \<open>\<^verbatim>\<open>\s+\<close>\<close>

definition space_pattern :: pattern where
  "space_pattern = plus CSpace"

text \<open>\<^verbatim>\<open>MARK(\d{3}-\d{4})\<close>\<close>

definition zip_pattern :: pattern where
  "zip_pattern =
     [Ch (COne postal_mark), GOpen] @ times 3 CDigit @ [Ch (COne 45)] @ times 4 CDigit @ [GClose]"

text \<open>
  \<^verbatim>\<open>^(.+?[SUFFIXES])\<close>, used with \<open>re.match\<close>, which matches at the start of the
  text, where \<^verbatim>\<open>^\<close> holds.
\<close>

definition prefecture_pattern :: pattern where
  "prefecture_pattern = [GOpen] @ plus_lazy CDot @ [Ch (COf pref_suffixes), GClose]"


text \<open>The three substitutions and the \<open>strip\<close> that clean the address cell.\<close>

definition clean_address :: "ustring \<Rightarrow> ustring" where
  "clean_address address0 =
     (let address = re_sub tag_pattern (asc '' '') address0;
          address = re_sub postal_strip_pattern [] address;
          address = py_strip (re_sub space_pattern (asc '' '') address)
      in address)"

text \<open>The last substitution, of a space for every run of white space.\<close>

abbreviation collapse :: "ustring \<Rightarrow> ustring" where
  "collapse s \<equiv> re_sub space_pattern (asc '' '') s"

text \<open>The dict \<open>info\<close>: a map from its keys to the extracted strings.\<close>

type_synonym info = "string \<rightharpoonup> ustring"

definition stripped_field :: "string \<Rightarrow> pattern \<Rightarrow> ustring \<Rightarrow> info \<Rightarrow> info" where
  \<comment> \<open>\<open>match = re.search(p, html); if match: info[key] = match.group(1).strip()\<close>\<close>
  "stripped_field key p html info =
     (case search_group p html of
        None \<Rightarrow> info
      | Some v \<Rightarrow> info(key \<mapsto> py_strip v))"

definition extract_shrine_info :: "ustring \<Rightarrow> info" where
  "extract_shrine_info html =
     (let info = Map.empty;
          info = stripped_field ''name'' name_pattern html info;
          info = stripped_field ''reading'' (field_pattern label_reading) html info;
          info = stripped_field ''province'' (field_pattern label_province) html info;
          info = stripped_field ''deity'' (field_pattern label_deity) html info;
          info = stripped_field ''virtue'' (field_pattern label_virtue) html info;
          info = (case search_group address_pattern html of
                    None \<Rightarrow> info
                  | Some address \<Rightarrow> info(''address'' \<mapsto> clean_address address));
          info = (case search_group zip_pattern html of
                    None \<Rightarrow> info
                  | Some z \<Rightarrow> info(''zip'' \<mapsto> z));
          info = stripped_field ''tel'' (field_pattern label_tel) html info;
          info = (case info ''address'' of
                    None \<Rightarrow> info
                  | Some address \<Rightarrow>
                      (case re_match prefecture_pattern address of
                         None \<Rightarrow> info
                       | Some pref \<Rightarrow> info(''prefecture'' \<mapsto> pref)))
      in info)"

subsection \<open>main\<close>

text \<open>The values of the output dict.\<close>

datatype 'f pyval = PInt int | PStr ustring | PFloat 'f | PNone

text \<open>\<open>info.get(key, '')\<close>\<close>

definition get_or_empty :: "info \<Rightarrow> string \<Rightarrow> ustring" where
  "get_or_empty info key = (case info key of None \<Rightarrow> [] | Some v \<Rightarrow> v)"

definition coord_val :: "'f option \<Rightarrow> 'f pyval" where
  "coord_val x = (case x of None \<Rightarrow> PNone | Some f \<Rightarrow> PFloat f)"

text \<open>
  The dict literal \<open>shrine\<close>, as the list of its items in the order of the literal;
  \<open>geo\<close> is the pair that \<open>geocode_shrine\<close> returned.
\<close>

definition make_shrine ::
  "'f pylib \<Rightarrow> int \<Rightarrow> info \<Rightarrow> ustring \<Rightarrow> ('f \<times> 'f) option \<Rightarrow> (string \<times> 'f pyval) list" where
  "make_shrine lib shrine_id info link geo =
     [(''id'', PInt shrine_id),
      (''name'', PStr (get_or_empty info ''name'')),
      (''region'', PStr (extract_region lib link)),
      (''reading'', PStr (get_or_empty info ''reading'')),
      (''province'', PStr (get_or_empty info ''province'')),
      (''prefecture'', PStr (get_or_empty info ''prefecture'')),
      (''address'', PStr (get_or_empty info ''address'')),
      (''zip'', PStr (get_or_empty info ''zip'')),
      (''tel'', PStr (get_or_empty info ''tel'')),
      (''deity'', PStr (get_or_empty info ''deity'')),
      (''virtue'', PStr (get_or_empty info ''virtue'')),
      (''lat'', coord_val (map_option fst geo)),
      (''lng'', coord_val (map_option snd geo))]"

text \<open>
  The state of the loop of \<open>main\<close>: the number of calls of \<open>curl\<close> made so far, the
  accumulator \<open>shrines\<close> and the counter \<open>shrine_id\<close>.
\<close>

record 'f state =
  calls :: nat
  shrines :: "(string \<times> 'f pyval) list list"
  shrine_id :: int

text \<open>
  The body of the loop for one link. Every exception raised inside the \<open>try\<close> block
  is caught by \<open>except Exception\<close>, which leaves the accumulator as it is; the record is
  appended and the counter advanced only after \<open>geocode_shrine\<close> has returned.
\<close>

definition loop_body :: "'f pylib \<Rightarrow> world \<Rightarrow> ustring \<Rightarrow> 'f state \<Rightarrow> 'f state" where
  "loop_body lib w link st =
     (let url = BASE_URL @ link in
      case fetch w (calls st) url of
        (Inl e, n) \<Rightarrow> st\<lparr>calls := n\<rparr>
      | (Inr html, n) \<Rightarrow>
          (let info = extract_shrine_info html in
           case info ''name'' of
             None \<Rightarrow> st\<lparr>calls := n\<rparr>
           | Some name \<Rightarrow>
               if name \<noteq> [] then
                 (case geocode_shrine lib w n name of
                    (Inl e, n') \<Rightarrow> st\<lparr>calls := n'\<rparr>
                  | (Inr geo, n') \<Rightarrow>
                      st\<lparr>calls := n',
                         shrines := shrines st @ [make_shrine lib (shrine_id st) info link geo],
                         shrine_id := shrine_id st + 1\<rparr>)
               else st\<lparr>calls := n\<rparr>))"

fun loop :: "'f pylib \<Rightarrow> world \<Rightarrow> ustring list \<Rightarrow> 'f state \<Rightarrow> 'f state" where
  "loop lib w [] st = st"
| "loop lib w (link # links) st = loop lib w links (loop_body lib w link st)"

text \<open>
  \<open>main\<close> up to the end of the loop: the value is the list \<open>shrines\<close> that is then
  written to the output file, or the exception that left \<open>main\<close>. The fetch of the
  listing page is outside every \<open>try\<close> block.
\<close>

definition main :: "'f pylib \<Rightarrow> world \<Rightarrow> py_error + (string \<times> 'f pyval) list list" where
  "main lib w =
     (case fetch w 0 (BASE_URL @ asc ''/alllist/'') of
        (Inl e, n) \<Rightarrow> Inl e
      | (Inr main_page, n) \<Rightarrow>
          (let links = extract_links main_page
           in Inr (shrines (loop lib w links \<lparr>calls = n, shrines = [], shrine_id = 1\<rparr>))))"




text \<open>
  The calls of the geocoding service and the calls of \<open>time.sleep\<close> of one pass of the
  loop, in the order in which they happen. \<open>Sleep d\<close> stands for a sleep of \<open>d\<close>
  milliseconds, which lasts at least that long; everything else takes a time that is not
  known. An exception raised inside the \<open>try\<close> block jumps to the \<open>except\<close> clause,
  past \<open>time.sleep(1)\<close> and \<open>time.sleep(0.5)\<close>.
\<close>

datatype event = Geocode | Sleep nat

definition loop_body_events :: "'f pylib \<Rightarrow> world \<Rightarrow> ustring \<Rightarrow> 'f state \<Rightarrow> event list" where
  "loop_body_events lib w link st =
     (let url = BASE_URL @ link in
      case fetch w (calls st) url of
        (Inl e, n) \<Rightarrow> []
      | (Inr html, n) \<Rightarrow>
          (let info = extract_shrine_info html in
           case info ''name'' of
             None \<Rightarrow> [Sleep 500]
           | Some name \<Rightarrow>
               if name \<noteq> [] then
                 (case geocode_shrine lib w n name of
                    (Inl e, n') \<Rightarrow> [Geocode]
                  | (Inr geo, n') \<Rightarrow> [Geocode, Sleep 1000, Sleep 500])
               else [Sleep 500]))"

fun loop_events :: "'f pylib \<Rightarrow> world \<Rightarrow> ustring list \<Rightarrow> 'f state \<Rightarrow> event list" where
  "loop_events lib w [] st = []"
| "loop_events lib w (link # links) st =
     loop_body_events lib w link st @ loop_events lib w links (loop_body lib w link st)"

definition main_events :: "'f pylib \<Rightarrow> world \<Rightarrow> py_error + event list" where
  "main_events lib w =
     (case fetch w 0 (BASE_URL @ asc ''/alllist/'') of
        (Inl e, n) \<Rightarrow> Inl e
      | (Inr main_page, n) \<Rightarrow>
          (let links = extract_links main_page
           in Inr (loop_events lib w links \<lparr>calls = n, shrines = [], shrine_id = 1\<rparr>)))"

text \<open>
  The time that is certain to pass between each geocoding call and the next: the sum of
  the sleeps between them. The least delay is the second between two requests that the
  comment at \<open>time.sleep(1)\<close> names.
\<close>

fun waits_from :: "nat \<Rightarrow> event list \<Rightarrow> nat list" where
  "waits_from slept [] = []"
| "waits_from slept (Sleep d # es) = waits_from (slept + d) es"
| "waits_from slept (Geocode # es) = slept # waits_from 0 es"

definition waits :: "event list \<Rightarrow> nat list" where
  "waits es =
     (case dropWhile (\<lambda>e. e \<noteq> Geocode) es of
        [] \<Rightarrow> []
      | g # rest \<Rightarrow> waits_from 0 rest)"

definition min_delay :: nat where
  "min_delay = 1000"

definition spaced :: "event list \<Rightarrow> bool" where
  "spaced es \<longleftrightarrow> list_all (\<lambda>d. min_delay \<le> d) (waits es)"

section \<open>info-grip.py: the removal of duplicate rows\<close>

text \<open>
  \<open>shrine_list\<close> is a list of dicts with the two keys of a row; the data frame built
  from it has one row for each dict, in the order of the list.
\<close>

record row =
  shrine_name :: ustring
  location :: ustring

text \<open>
  \<open>DataFrame.duplicated()\<close> with its default \<open>keep='first'\<close> flags every row that is
  equal, in all its columns, to a row before it; \<open>seen\<close> holds the rows before.
\<close>

fun duplicated_from :: "'a list \<Rightarrow> 'a list \<Rightarrow> bool list" where
  "duplicated_from seen [] = []"
| "duplicated_from seen (r # rows) = (r \<in> set seen) # duplicated_from (r # seen) rows"

definition duplicated :: "'a list \<Rightarrow> bool list" where
  "duplicated rows = duplicated_from [] rows"

text \<open>\<open>df[~flags]\<close>: the rows that are not flagged, in their order.\<close>

definition keep_unflagged :: "'a list \<Rightarrow> bool list \<Rightarrow> 'a list" where
  "keep_unflagged rows flags = map fst (filter (\<lambda>(r, d). \<not> d) (zip rows flags))"

text \<open>\<open>DataFrame.drop_duplicates()\<close> is \<open>df[~df.duplicated()]\<close>.\<close>

definition drop_duplicates :: "'a list \<Rightarrow> 'a list" where
  "drop_duplicates rows = keep_unflagged rows (duplicated rows)"

abbreviation kept :: "'a list \<Rightarrow> 'a list \<Rightarrow> 'a list" where
  "kept seen rows \<equiv> keep_unflagged rows (duplicated_from seen rows)"

section \<open>Example inputs\<close>

text \<open>
  A finite part of the library for the examples: \<open>json.loads\<close> on the two response
  texts \<^verbatim>\<open>[1]\<close> and \<^verbatim>\<open>[{"lat": "35.0", "lon": "139.0"}]\<close> (every other text of the examples is no
  JSON), \<open>float\<close> on the two strings of the second, and \<open>quote\<close> and \<open>unquote\<close> on
  ASCII letters, digits and slashes, which they leave as they are.
\<close>

definition example_response :: ustring where
  "example_response = [91, 123, 34, 108, 97, 116, 34, 58, 32, 34, 51, 53, 46, 48, 34, 44, 32, 34, 108, 111, 110, 34, 58, 32, 34, 49, 51, 57, 46, 48, 34, 125, 93]"

definition example_lib :: "real pylib" where
  "example_lib =
     \<lparr>json_loads = (\<lambda>s.
          if s = asc ''[1]'' then Inr (JArr [JInt 1])
          else if s = example_response
            then Inr (JArr [JObj [(asc ''lat'', JStr (asc ''35.0'')), (asc ''lon'', JStr (asc ''139.0''))]])
          else Inl JSONDecodeError),
      str_to_float = (\<lambda>s.
          if s = asc ''35.0'' then Some 35 else if s = asc ''139.0'' then Some 139 else None),
      int_to_float = (\<lambda>i. Some (of_int i)),
      float_is_zero = (\<lambda>f. f = 0),
      quote = (\<lambda>s. s),
      unquote = (\<lambda>s. s)\<rparr>"

text \<open>A listing page with the link \<^verbatim>\<open>/alllist/a/b/\<close> twice.\<close>

definition example_listing :: ustring where
  "example_listing =
     asc ''<a href='' @ [34] @ asc ''/alllist/a/b/'' @ [34] @ asc ''>b</a>'' @
     asc ''<a href='' @ [34] @ asc ''/alllist/a/b/'' @ [34] @ asc ''>b</a>''"

text \<open>A listing page with the link \<^verbatim>\<open>/alllist/a/b/c/\<close>.\<close>

definition example_deep_listing :: ustring where
  "example_deep_listing = asc ''<a href='' @ [34] @ asc ''/alllist/a/b/c/'' @ [34] @ asc ''>c</a>''"

text \<open>
  A detail page with the name \<open>A\<close> and an address that starts with the postal mark, a
  postal code, an ideographic space and the name of the prefecture of Tokyo.
\<close>

definition example_address :: ustring where
  "example_address = [0x6771, 0x4EAC, 0x90FD, 0x5343, 0x4EE3, 0x7530, 0x533A]"

definition example_detail :: ustring where
  "example_detail =
     asc ''<td>'' @ label_name @ asc ''</td><td>A</td>'' @
     asc ''<td>'' @ label_address @ asc ''</td><td>'' @
     [postal_mark] @ asc ''100-0001'' @ [0x3000] @ example_address @ asc ''</td>''"

text \<open>The same page with no postal mark before the digits.\<close>

definition example_unmarked :: ustring where
  "example_unmarked =
     asc ''<td>'' @ label_name @ asc ''</td><td>A</td>'' @
     asc ''<td>'' @ label_address @ asc ''</td><td>'' @
     asc ''100-0001 Tokyo</td>''"

text \<open>A detail page whose name has two spaces inside.\<close>

definition example_spaced :: ustring where
  "example_spaced = asc ''<td>'' @ label_name @ asc ''</td><td> A  B </td>''"


definition example_world_odd :: world where
  "example_world_odd n url =
     (if n = 0 then Completed 0 example_listing
      else if n = 1 then Completed 0 example_detail
      else Completed 0 (asc ''[1]''))"

definition example_world_down :: world where
  "example_world_down n url = Completed 6 []"



text \<open>A detail page with the name \<open>A\<close> and the given address cell.\<close>

definition example_page :: "ustring \<Rightarrow> ustring" where
  "example_page cell =
     asc ''<td>'' @ label_name @ asc ''</td><td>A</td>'' @
     asc ''<td>'' @ label_address @ asc ''</td><td>'' @ cell @ asc ''</td>''"

text \<open>
  Two addresses in Kyoto: one that starts with the city, with no prefecture, and one
  that starts with the prefecture.
\<close>

definition kyoto_city :: ustring where
  "kyoto_city = [0x4EAC, 0x90FD, 0x5E02, 0x5DE6, 0x4EAC, 0x533A]"

definition kyoto_prefecture :: ustring where
  "kyoto_prefecture = [0x4EAC, 0x90FD, 0x5E9C, 0x4EAC, 0x90FD, 0x5E02]"

text \<open>
  A listing page with two links, and a run in which both detail pages have the name
  \<open>A\<close> and the geocoding service answers \<^verbatim>\<open>[1]\<close> to the first call.
\<close>

definition example_listing_two :: ustring where
  "example_listing_two =
     asc ''<a href='' @ [34] @ asc ''/alllist/a/b/'' @ [34] @ asc ''>b</a>'' @
     asc ''<a href='' @ [34] @ asc ''/alllist/a/c/'' @ [34] @ asc ''>c</a>''"

definition example_world_two :: world where
  "example_world_two n url =
     (if n = 0 then Completed 0 example_listing_two
      else if n = 1 then Completed 0 example_detail
      else if n = 2 then Completed 0 (asc ''[1]'')
      else if n = 3 then Completed 0 example_detail
      else Completed 0 example_response)"

section \<open>Properties of the removal of duplicate rows\<close>

lemma kept_Nil: "keep_unflagged [] flags = []"
  by (simp add: keep_unflagged_def)

lemma kept_Cons:
  "keep_unflagged (r # rows) (d # flags) =
     (if d then keep_unflagged rows flags else r # keep_unflagged rows flags)"
  by (simp add: keep_unflagged_def)

lemma kept_set: "set (kept seen rows) = set rows - set seen"
  by (induction rows arbitrary: seen) (auto simp: kept_Nil kept_Cons)

lemma kept_distinct: "distinct (kept seen rows)"
  by (induction rows arbitrary: seen) (auto simp: kept_Nil kept_Cons kept_set)

lemma kept_subseq: "subseq (kept seen rows) rows"
  by (induction rows arbitrary: seen) (auto simp: kept_Nil kept_Cons)

text \<open>The rows seen before only filter the result.\<close>

lemma kept_filter: "kept seen rows = filter (\<lambda>y. y \<notin> set seen) (kept [] rows)"
proof (induction rows arbitrary: seen)
  case Nil
  show ?case by (simp add: kept_Nil)
next
  case (Cons r rows)
  have a: "kept (r # seen) rows = filter (\<lambda>y. y \<notin> set (r # seen)) (kept [] rows)"
    by (rule Cons.IH)
  have b: "kept [r] rows = filter (\<lambda>y. y \<notin> set [r]) (kept [] rows)"
    by (rule Cons.IH)
  show ?case
    by (simp add: kept_Cons a b conj_commute)
qed

lemma kept_fixed: "distinct rows \<Longrightarrow> set rows \<inter> set seen = {} \<Longrightarrow> kept seen rows = rows"
  by (induction rows arbitrary: seen) (auto simp: kept_Nil kept_Cons)

text \<open>
  C9. Removing the duplicate rows of its own result changes nothing; the result has no
  two equal rows, has the rows of the input, in the order of the input, and keeps of each
  row its first occurrence: it starts with the first row, followed by the result for the
  other rows without the rows equal to the first.
\<close>

theorem drop_duplicates_idempotent_first_seen:
  "drop_duplicates (drop_duplicates rows) = drop_duplicates rows \<and>
   distinct (drop_duplicates rows) \<and>
   set (drop_duplicates rows) = set rows \<and>
   subseq (drop_duplicates rows) rows \<and>
   drop_duplicates [] = ([] :: 'a list) \<and>
   (\<forall>r. drop_duplicates (r # rows) = r # filter (\<lambda>y. y \<noteq> r) (drop_duplicates rows))"
proof -
  have d: "distinct (drop_duplicates rows)"
    by (simp add: drop_duplicates_def duplicated_def kept_distinct)
  have "kept [] (drop_duplicates rows) = drop_duplicates rows"
    using d by (intro kept_fixed) simp_all
  then have i: "drop_duplicates (drop_duplicates rows) = drop_duplicates rows"
    by (simp add: drop_duplicates_def duplicated_def)
  have s: "set (drop_duplicates rows) = set rows"
    by (simp add: drop_duplicates_def duplicated_def kept_set)
  have q: "subseq (drop_duplicates rows) rows"
    by (simp add: drop_duplicates_def duplicated_def kept_subseq)
  have n: "drop_duplicates [] = ([] :: 'a list)"
    by (simp add: drop_duplicates_def duplicated_def kept_Nil)
  have c: "drop_duplicates (r # rows) = r # filter (\<lambda>y. y \<noteq> r) (drop_duplicates rows)" for r
    using kept_filter [where seen = "[r]" and rows = rows]
    by (simp add: drop_duplicates_def duplicated_def kept_Cons)
  from i d s q n c show ?thesis by blast
qed

theorem drop_duplicates_idempotent_first_seen_witness:
  "drop_duplicates
     [\<lparr>shrine_name = asc ''A'', location = asc ''x''\<rparr>,
      \<lparr>shrine_name = asc ''B'', location = asc ''x''\<rparr>,
      \<lparr>shrine_name = asc ''A'', location = asc ''x''\<rparr>] =
     [\<lparr>shrine_name = asc ''A'', location = asc ''x''\<rparr>,
      \<lparr>shrine_name = asc ''B'', location = asc ''x''\<rparr>] \<and>
   drop_duplicates
     [\<lparr>shrine_name = asc ''A'', location = asc ''x''\<rparr>,
      \<lparr>shrine_name = asc ''B'', location = asc ''x''\<rparr>] =
     [\<lparr>shrine_name = asc ''A'', location = asc ''x''\<rparr>,
      \<lparr>shrine_name = asc ''B'', location = asc ''x''\<rparr>]"
proof -
  let ?a = "\<lparr>shrine_name = asc ''A'', location = asc ''x''\<rparr>"
  let ?b = "\<lparr>shrine_name = asc ''B'', location = asc ''x''\<rparr>"
  have e: "drop_duplicates [?a, ?b, ?a] = [?a, ?b]"
    by (simp add: drop_duplicates_def duplicated_def kept_Nil kept_Cons asc_def)
  have "drop_duplicates (drop_duplicates [?a, ?b, ?a]) = drop_duplicates [?a, ?b, ?a]"
    using drop_duplicates_idempotent_first_seen [of "[?a, ?b, ?a]"] by blast
  with e show ?thesis by simp
qed


section \<open>Evaluating the extractor and the run on the examples\<close>

lemma times_3: "times 3 c = [Ch c, Ch c, Ch c]"
  by (simp add: times_def numeral_3_eq_3)

lemma times_4: "times 4 c = [Ch c, Ch c, Ch c, Ch c]"
  by (simp add: times_def numeral_Bit0 numeral_3_eq_3 eval_nat_numeral)

lemmas pattern_defs = name_pattern_def field_pattern_def address_pattern_def cell_start_def
  tag_pattern_def postal_strip_pattern_def space_pattern_def zip_pattern_def
  prefecture_pattern_def link_pattern_def lit_def plus_def plus_lazy_def times_3 times_4 asc_def
  label_name_def label_reading_def label_province_def label_deity_def label_virtue_def
  label_address_def label_tel_def postal_mark_def pref_suffixes_def

lemmas example_defs = example_listing_def example_deep_listing_def example_detail_def
  example_unmarked_def example_spaced_def example_address_def example_response_def

lemmas class_defs = py_isspace_def py_isdecimal_def nd_zeros_def

lemma asc_nonempty: "asc (c # cs) \<noteq> []"
  by (simp add: asc_def)

text \<open>The value of one key of \<open>info\<close>.\<close>

lemma case_option_apply:
  "(case x of None \<Rightarrow> f | Some v \<Rightarrow> g v) k = (case x of None \<Rightarrow> f k | Some v \<Rightarrow> g v k)"
  by (simp split: option.split)

lemma stripped_field_apply:
  "stripped_field key p html info k =
     (if k = key then (case search_group p html of None \<Rightarrow> info k | Some v \<Rightarrow> Some (py_strip v))
      else info k)"
  by (simp add: stripped_field_def split: option.split)

lemmas info_simps = extract_shrine_info_def Let_def stripped_field_apply case_option_apply

lemma info_name:
  "extract_shrine_info html ''name'' = map_option py_strip (search_group name_pattern html)"
  by (simp add: info_simps split: option.split)







lemma info_address:
  "extract_shrine_info html ''address'' =
     map_option clean_address (search_group address_pattern html)"
  by (simp add: info_simps split: option.split)

lemma info_prefecture:
  "extract_shrine_info html ''prefecture'' =
     (case extract_shrine_info html ''address'' of
        None \<Rightarrow> None
      | Some a \<Rightarrow> re_match prefecture_pattern a)"
  by (simp add: info_simps split: option.split)

text \<open>The examples.\<close>

lemma links_example_listing: "extract_links example_listing = [asc ''/alllist/a/b/'']"
  by (simp add: extract_links_def re_findall_def is_image_def example_defs pattern_defs)

lemma name_example_detail: "extract_shrine_info example_detail ''name'' = Some (asc ''A'')"
  by (simp add: info_name search_group_def py_strip_def class_defs example_defs pattern_defs)


lemma address_example_detail:
  "extract_shrine_info example_detail ''address'' = Some example_address"
  by (simp add: info_address search_group_def clean_address_def re_sub_def py_strip_def
      class_defs example_defs pattern_defs)

lemma geocode_odd:
  "geocode_shrine example_lib example_world_odd (Suc (Suc 0)) (asc ''A'') =
     (Inl TypeError, Suc (Suc (Suc 0)))"
  by (simp add: geocode_shrine_def geocode_try_def coordinate_def bind_err_def caught_def
      example_lib_def example_world_odd_def asc_def)


lemma loop_body_odd:
  "loop_body example_lib example_world_odd (asc ''/alllist/a/b/'')
     \<lparr>calls = Suc 0, shrines = [], shrine_id = 1\<rparr> =
     \<lparr>calls = Suc (Suc (Suc 0)), shrines = [], shrine_id = 1\<rparr>"
  by (simp add: loop_body_def fetch_def)
     (simp add: example_world_odd_def name_example_detail geocode_odd asc_nonempty)



section \<open>Link discovery\<close>

text \<open>
  C3. Every link that \<open>extract_links\<close> returns has exactly two path segments after
  \<^verbatim>\<open>/alllist/\<close>. The code returns, for a listing page with the anchor
  \<^verbatim>\<open>href="/alllist/a/b/c/"\<close>, the link \<^verbatim>\<open>/alllist/a/b/c/\<close>, which
  \<open>split('/')\<close> cuts into six parts, not the five of the comment in \<open>extract_region\<close>:
  \<^verbatim>\<open>[^"]+\<close> also matches slashes.
\<close>

theorem extract_links_three_segments:
  "extract_links example_deep_listing = [asc ''/alllist/a/b/c/''] \<and>
   py_split 47 (asc ''/alllist/a/b/c/'') = [[], asc ''alllist'', asc ''a'', asc ''b'', asc ''c'', []]"
  by (simp add: extract_links_def re_findall_def is_image_def example_defs pattern_defs)

section \<open>The geocoder and the gate on the name\<close>

text \<open>
  C2. For every response text, \<open>geocode_shrine\<close> returns a pair of coordinates or
  \<open>(None, None)\<close> and never raises. The code raises \<open>TypeError\<close> on the response
  \<^verbatim>\<open>[1]\<close>: the text is JSON, \<open>data[0]\<close> is the number 1, and \<open>1['lat']\<close> is a
  \<open>TypeError\<close>, which the \<open>except\<close> clause does not list.
\<close>

theorem geocode_shrine_raises_TypeError:
  "geocode_shrine example_lib example_world_odd 2 (asc ''A'') = (Inl TypeError, 3)"
  using geocode_odd by (simp add: numeral_2_eq_2 numeral_3_eq_3)

text \<open>
  C1. A record is appended if and only if the extracted name is present and not empty.
  In the run in which the geocoding service answers \<^verbatim>\<open>[1]\<close>, the detail page has
  the name \<open>A\<close> and no record is appended: the \<open>TypeError\<close> of \<open>geocode_shrine\<close>
  is caught by the \<open>except Exception\<close> of the loop, after the test of the name and before
  \<open>shrines.append\<close>.
\<close>

theorem named_page_dropped_when_geocoder_raises:
  "extract_links example_listing = [asc ''/alllist/a/b/''] \<and>
   extract_shrine_info example_detail ''name'' = Some (asc ''A'') \<and>
   main example_lib example_world_odd = Inr []"
proof -
  have "main example_lib example_world_odd = Inr []"
    by (simp add: main_def fetch_def)
       (simp add: example_world_odd_def links_example_listing loop_body_odd)
  then show ?thesis by (simp add: links_example_listing name_example_detail)
qed


section \<open>The run: the listing page and the records of the output\<close>

text \<open>
  C5, as the claim states it, fails: in the run in which \<open>curl\<close> cannot reach the site
  and ends with exit status 6 and no output, also for the listing page, \<open>main\<close> ends
  normally with the empty list.
\<close>

theorem unreachable_listing_not_fatal:
  "example_world_down 0 (BASE_URL @ asc ''/alllist/'') = Completed 6 [] \<and>
   main example_lib example_world_down = Inr []"
  by (simp add: main_def fetch_def example_world_down_def extract_links_def re_findall_def)

text \<open>
  C5, amended. An exception leaves \<open>main\<close> exactly when the call of \<open>curl\<close> for the
  listing page raises it. When that call completes, with whatever exit status, its
  output is the listing page: a page with no links, and so the empty output of a failed
  transfer, ends the run normally with the empty list.
\<close>

theorem root_fetch:
  "(\<forall>e. main lib w = Inl e \<longleftrightarrow> w 0 (BASE_URL @ asc ''/alllist/'') = Raised e) \<and>
   (\<forall>rc out. w 0 (BASE_URL @ asc ''/alllist/'') = Completed rc out \<longrightarrow>
      extract_links out = [] \<longrightarrow> main lib w = Inr []) \<and>
   (\<forall>rc. w 0 (BASE_URL @ asc ''/alllist/'') = Completed rc [] \<longrightarrow> main lib w = Inr [])"
  by (auto simp: main_def fetch_def extract_links_def re_findall_def split: proc.splits)

theorem root_fetch_witness:
  "example_world_down 0 (BASE_URL @ asc ''/alllist/'') = Completed 6 [] \<and>
   extract_links [] = [] \<and>
   main example_lib example_world_down = Inr [] \<and>
   main example_lib example_world_down \<noteq> Inl OSError"
proof -
  have w: "example_world_down 0 (BASE_URL @ asc ''/alllist/'') = Completed 6 []"
    by (simp add: example_world_down_def)
  have l: "extract_links [] = []"
    by (simp add: extract_links_def re_findall_def)
  from root_fetch [of example_lib example_world_down] w l
  have "main example_lib example_world_down = Inr []" by blast
  moreover from root_fetch [of example_lib example_world_down] w
  have "main example_lib example_world_down \<noteq> Inl OSError" by simp
  ultimately show ?thesis using w l by simp
qed










section \<open>The delay between geocoding calls\<close>

lemma links_example_listing_two:
  "extract_links example_listing_two = [asc ''/alllist/a/b/'', asc ''/alllist/a/c/'']"
  by (simp add: extract_links_def re_findall_def is_image_def example_listing_two_def pattern_defs)

lemma geocode_two_first:
  "geocode_shrine example_lib example_world_two (Suc (Suc 0)) (asc ''A'') =
     (Inl TypeError, Suc (Suc (Suc 0)))"
  by (simp add: geocode_shrine_def geocode_try_def coordinate_def bind_err_def caught_def
      example_lib_def example_world_two_def asc_def)

lemma geocode_two_second:
  "geocode_shrine example_lib example_world_two (Suc (Suc (Suc (Suc 0)))) (asc ''A'') =
     (Inr (Some (35, 139)), Suc (Suc (Suc (Suc (Suc 0)))))"
  by (simp add: geocode_shrine_def geocode_try_def coordinate_def bind_err_def caught_def
      example_lib_def example_world_two_def example_response_def asc_def)

lemma loop_body_two_first:
  "loop_body example_lib example_world_two (asc ''/alllist/a/b/'')
     \<lparr>calls = Suc 0, shrines = [], shrine_id = 1\<rparr> =
     \<lparr>calls = Suc (Suc (Suc 0)), shrines = [], shrine_id = 1\<rparr>"
  by (simp add: loop_body_def fetch_def)
     (simp add: example_world_two_def name_example_detail geocode_two_first asc_nonempty)

lemma events_two_first:
  "loop_body_events example_lib example_world_two (asc ''/alllist/a/b/'')
     \<lparr>calls = Suc 0, shrines = [], shrine_id = 1\<rparr> = [Geocode]"
  by (simp add: loop_body_events_def fetch_def)
     (simp add: example_world_two_def name_example_detail geocode_two_first asc_nonempty)

lemma events_two_second:
  "loop_body_events example_lib example_world_two (asc ''/alllist/a/c/'')
     \<lparr>calls = Suc (Suc (Suc 0)), shrines = [], shrine_id = 1\<rparr> =
     [Geocode, Sleep 1000, Sleep 500]"
  by (simp add: loop_body_events_def fetch_def)
     (simp add: example_world_two_def name_example_detail geocode_two_second asc_nonempty)

lemma main_events_two:
  "main_events example_lib example_world_two = Inr [Geocode, Geocode, Sleep 1000, Sleep 500]"
  by (simp add: main_events_def fetch_def)
     (simp add: example_world_two_def links_example_listing_two loop_body_two_first
        events_two_first events_two_second)

text \<open>
  C8. No geocoding call is issued before the least delay since the call before it has
  passed. In the run with two named pages in which the service answers \<^verbatim>\<open>[1]\<close> to
  the first call, the \<open>TypeError\<close> of \<open>geocode_shrine\<close> skips both sleeps, and the
  second call follows the first with no sleep between them: the time that is certain to
  pass between the two calls is 0, below the least delay.
\<close>

theorem second_geocode_call_without_delay:
  "main_events example_lib example_world_two = Inr [Geocode, Geocode, Sleep 1000, Sleep 500] \<and>
   waits [Geocode, Geocode, Sleep 1000, Sleep 500] = [0] \<and>
   \<not> spaced [Geocode, Geocode, Sleep 1000, Sleep 500]"
  using main_events_two by (simp add: waits_def spaced_def min_delay_def)

section \<open>Trimming and the cleaning of the address\<close>

lemma strip_sublist: "\<exists>l r. s = l @ py_strip s @ r"
proof -
  let ?t = "dropWhile py_isspace s"
  have a: "s = takeWhile py_isspace s @ ?t" by simp
  have "?t = rev (takeWhile py_isspace (rev ?t) @ dropWhile py_isspace (rev ?t))"
    by (simp only: takeWhile_dropWhile_id rev_rev_ident)
  also have "\<dots> = py_strip s @ rev (takeWhile py_isspace (rev ?t))"
    by (simp only: rev_append py_strip_def)
  finally have b: "?t = py_strip s @ rev (takeWhile py_isspace (rev ?t))" .
  from a b have "s = takeWhile py_isspace s @ py_strip s @ rev (takeWhile py_isspace (rev ?t))"
    by simp
  then show ?thesis by blast
qed




lemma cmatch_CSpace: "cmatch CSpace = py_isspace"
  by (rule ext) simp

lemma bt_Star_end: "bt [Star k] s g c = Some (dropWhile (cmatch k) s, c)"
  by (induction s) simp_all

lemma sub_from_skip: "sub_from p r n s = sub_from p r 0 (drop n s)"
proof (induction s arbitrary: n)
  case Nil
  show ?case by simp
next
  case (Cons x xs)
  show ?case
  proof (cases n)
    case 0
    then show ?thesis by simp
  next
    case (Suc m)
    then show ?thesis using Cons.IH [of m] by simp
  qed
qed

lemma drop_to_dropWhile: "drop (length xs - length (dropWhile P xs)) xs = dropWhile P xs"
proof -
  have "length xs = length (takeWhile P xs) + length (dropWhile P xs)"
    by (metis length_append takeWhile_dropWhile_id)
  then have "length xs - length (dropWhile P xs) = length (takeWhile P xs)" by simp
  then show ?thesis by (simp add: dropWhile_eq_drop)
qed

lemma collapse_Nil: "collapse [] = []"
  by (simp add: re_sub_def)

lemma collapse_Cons:
  "collapse (x # xs) =
     (if py_isspace x then 32 # collapse (dropWhile py_isspace xs) else x # collapse xs)"
proof -
  have "length (dropWhile py_isspace xs) \<le> length xs" by (rule length_dropWhile_le)
  then have n: "length (dropWhile py_isspace xs) \<noteq> Suc (length xs)" by simp
  show ?thesis
    using n sub_from_skip [of space_pattern "[32]" "length xs - length (dropWhile py_isspace xs)" xs]
    by (simp add: re_sub_def space_pattern_def plus_def bt_Star_end asc_def drop_to_dropWhile cmatch_CSpace)
qed

lemma collapse_spaces: "c \<in> set (collapse s) \<Longrightarrow> py_isspace c \<Longrightarrow> c = 32"
proof (induction s arbitrary: c rule: length_induct)
  case (1 s)
  show ?case
  proof (cases s)
    case Nil
    with "1.prems" show ?thesis by (simp add: collapse_Nil)
  next
    case (Cons x xs)
    have l: "length (dropWhile py_isspace xs) < length s"
      using Cons length_dropWhile_le [of py_isspace xs] by simp
    have l': "length xs < length s" using Cons by simp
    show ?thesis
      using "1.prems" "1.IH" [rule_format, OF l] "1.IH" [rule_format, OF l'] Cons
      by (auto simp: collapse_Cons split: if_splits)
  qed
qed




lemma strip_set: "set (py_strip s) \<subseteq> set s"
proof -
  obtain l r where "s = l @ py_strip s @ r" using strip_sublist by blast
  then have "set s = set l \<union> set (py_strip s) \<union> set r" by (metis set_append sup_assoc)
  then show ?thesis by blast
qed

lemma clean_address_spaces: "c \<in> set (clean_address a) \<Longrightarrow> py_isspace c \<Longrightarrow> c = 32"
  using strip_set collapse_spaces by (fastforce simp: clean_address_def Let_def)













section \<open>The prefecture\<close>

text \<open>
  The lazy \<^verbatim>\<open>.+?\<close> followed by the class of the four suffixes stops at the first
  suffix character after the first character of the text.
\<close>

lemma lazy_scan:
  "10 \<notin> set s \<Longrightarrow>
   bt [StarLazy CDot, Ch (COf S), GClose] s g c =
     (case dropWhile (\<lambda>y. y \<notin> set S) s of
        [] \<Rightarrow> None
      | y # ys \<Rightarrow> Some (ys, Some (take (length g - length ys) g)))"
  by (induction s) simp_all

lemma take_through:
  "xs = tw @ y # ys \<Longrightarrow> take (length (x # xs) - length ys) (x # xs) = x # tw @ [y]"
  by simp

lemma re_match_prefecture:
  assumes "10 \<notin> set a"
  shows "re_match prefecture_pattern a =
     (case a of
        [] \<Rightarrow> None
      | x # xs \<Rightarrow>
          (case dropWhile (\<lambda>y. y \<notin> set pref_suffixes) xs of
             [] \<Rightarrow> None
           | y # ys \<Rightarrow> Some (x # takeWhile (\<lambda>y. y \<notin> set pref_suffixes) xs @ [y])))"
proof (cases a)
  case Nil
  then show ?thesis by (simp add: re_match_def prefecture_pattern_def plus_lazy_def)
next
  case (Cons x xs)
  with assms have x: "x \<noteq> 10" and xs: "10 \<notin> set xs" by auto
  have b: "bt prefecture_pattern a [] None =
      (case dropWhile (\<lambda>y. y \<notin> set pref_suffixes) xs of
         [] \<Rightarrow> None
       | y # ys \<Rightarrow> Some (ys, Some (take (length (x # xs) - length ys) (x # xs))))"
    using Cons x lazy_scan [OF xs] by (simp add: prefecture_pattern_def plus_lazy_def)
  show ?thesis
  proof (cases "dropWhile (\<lambda>y. y \<notin> set pref_suffixes) xs")
    case Nil
    then show ?thesis unfolding re_match_def b by (simp add: Cons del: dropWhile_eq_Nil_conv)
  next
    case d: (Cons y ys)
    have "xs = takeWhile (\<lambda>y. y \<notin> set pref_suffixes) xs @ y # ys"
      using d by (metis takeWhile_dropWhile_id)
    from take_through [OF this] show ?thesis unfolding re_match_def b by (simp add: Cons d)
  qed
qed

lemma dropWhile_decomp:
  "dropWhile P xs = y # ys \<Longrightarrow> xs = takeWhile P xs @ y # ys \<and> \<not> P y"
  by (metis hd_dropWhile list.distinct(1) list.sel(1) takeWhile_dropWhile_id)

lemma dropWhile_found: "xs = tw @ c # rest \<Longrightarrow> \<not> P c \<Longrightarrow> dropWhile P xs \<noteq> []"
  by auto

lemma not_newline_in_address: "10 \<notin> set (clean_address v)"
proof
  assume "10 \<in> set (clean_address v)"
  moreover have "py_isspace 10" by (simp add: py_isspace_def)
  ultimately have "(10::nat) = 32" by (rule clean_address_spaces)
  then show False by simp
qed

lemma prefecture_fwd:
  assumes nl: "10 \<notin> set a" and that: "re_match prefecture_pattern a = Some p"
  shows "\<exists>stem c rest. a = stem @ c # rest \<and> stem \<noteq> [] \<and> c \<in> set pref_suffixes \<and>
         set (tl stem) \<inter> set pref_suffixes = {} \<and> p = stem @ [c]"
proof -
  let ?P = "\<lambda>y. y \<notin> set pref_suffixes"
  note m = re_match_prefecture [OF nl]
  from that m obtain x xs where ax: "a = x # xs"
    by (cases a) simp_all
  from that m ax obtain y ys where d: "dropWhile ?P xs = y # ys"
    by (cases "dropWhile ?P xs") simp_all
  from that m ax d have p: "p = x # takeWhile ?P xs @ [y]" by simp
  from dropWhile_decomp [OF d] have y: "y \<in> set pref_suffixes" by simp
  have "(x # takeWhile ?P xs) @ dropWhile ?P xs = x # xs" by simp
  then have e: "a = (x # takeWhile ?P xs) @ y # ys" unfolding d ax by (rule sym)
  have t: "set (tl (x # takeWhile ?P xs)) \<inter> set pref_suffixes = {}"
    by (auto dest: set_takeWhileD)
  have "a = (x # takeWhile ?P xs) @ y # ys \<and> x # takeWhile ?P xs \<noteq> [] \<and>
      y \<in> set pref_suffixes \<and> set (tl (x # takeWhile ?P xs)) \<inter> set pref_suffixes = {} \<and>
      p = (x # takeWhile ?P xs) @ [y]"
    using e t y p by simp
  then show ?thesis by (intro exI)
qed

lemma prefecture_bwd:
  assumes nl: "10 \<notin> set a" and that: "a = stem @ c # rest" "stem \<noteq> []" "c \<in> set pref_suffixes"
  shows "re_match prefecture_pattern a \<noteq> None"
proof -
  let ?P = "\<lambda>y. y \<notin> set pref_suffixes"
  note m = re_match_prefecture [OF nl]
  from that obtain x tw where st: "stem = x # tw" by (cases stem) simp_all
  with that have ax: "a = x # (tw @ c # rest)" by simp
  have "dropWhile ?P (tw @ c # rest) \<noteq> []"
    using that(3) by (intro dropWhile_found [of _ tw c rest]) simp_all
  then show ?thesis using m ax by (cases "dropWhile ?P (tw @ c # rest)") simp_all
qed

lemma prefecture_tokyo:
  assumes nl: "10 \<notin> set a" and that: "a = [0x6771, 0x4EAC, 0x90FD] @ rest"
  shows "re_match prefecture_pattern a = Some [0x6771, 0x4EAC, 0x90FD]"
  using re_match_prefecture [OF nl] that by (simp add: pref_suffixes_def)


text \<open>
  What the pattern computes, with a token read as a stem that is not empty followed by
  a suffix character: the prefecture is set if and only if the cleaned address is there
  and holds a suffix character after its first character; it is then the start of the
  address up to the first such character; and a cleaned address that starts with the three
  characters of the prefecture of Tokyo gives exactly these three.
\<close>

lemma prefecture_from_address:
  "(extract_shrine_info html ''prefecture'' \<noteq> None \<longleftrightarrow>
      (\<exists>a stem c rest. extract_shrine_info html ''address'' = Some a \<and>
         a = stem @ c # rest \<and> stem \<noteq> [] \<and> c \<in> set pref_suffixes)) \<and>
   (\<forall>p. extract_shrine_info html ''prefecture'' = Some p \<longrightarrow>
      (\<exists>a stem c rest. extract_shrine_info html ''address'' = Some a \<and>
         a = stem @ c # rest \<and> stem \<noteq> [] \<and> c \<in> set pref_suffixes \<and>
         set (tl stem) \<inter> set pref_suffixes = {} \<and> p = stem @ [c])) \<and>
   (\<forall>rest. extract_shrine_info html ''address'' = Some ([0x6771, 0x4EAC, 0x90FD] @ rest) \<longrightarrow>
      extract_shrine_info html ''prefecture'' = Some [0x6771, 0x4EAC, 0x90FD])"
proof (cases "extract_shrine_info html ''address''")
  case None
  then show ?thesis by (simp add: info_prefecture)
next
  case (Some a)
  then obtain v where a: "a = clean_address v" by (auto simp: info_address)
  have nl: "10 \<notin> set a" unfolding a by (rule not_newline_in_address)
  have pref: "extract_shrine_info html ''prefecture'' = re_match prefecture_pattern a"
    using Some by (simp add: info_prefecture)
  have shortest: "\<exists>stem c rest. a = stem @ c # rest \<and> stem \<noteq> [] \<and> c \<in> set pref_suffixes \<and>
         set (tl stem) \<inter> set pref_suffixes = {} \<and> p = stem @ [c]"
    if "re_match prefecture_pattern a = Some p" for p
    using nl that by (rule prefecture_fwd)
  have one: "re_match prefecture_pattern a \<noteq> None \<longleftrightarrow>
      (\<exists>stem c rest. a = stem @ c # rest \<and> stem \<noteq> [] \<and> c \<in> set pref_suffixes)"
  proof
    assume "re_match prefecture_pattern a \<noteq> None"
    then obtain p where "re_match prefecture_pattern a = Some p" by (cases "re_match prefecture_pattern a") simp_all
    from shortest [OF this] obtain stem c rest where
      "a = stem @ c # rest \<and> stem \<noteq> [] \<and> c \<in> set pref_suffixes" by metis
    then show "\<exists>stem c rest. a = stem @ c # rest \<and> stem \<noteq> [] \<and> c \<in> set pref_suffixes"
      by (intro exI)
  next
    assume "\<exists>stem c rest. a = stem @ c # rest \<and> stem \<noteq> [] \<and> c \<in> set pref_suffixes"
    then obtain stem c rest where "a = stem @ c # rest" "stem \<noteq> []" "c \<in> set pref_suffixes"
      by metis
    with nl show "re_match prefecture_pattern a \<noteq> None" by (rule prefecture_bwd)
  qed
  have tokyo: "re_match prefecture_pattern a = Some [0x6771, 0x4EAC, 0x90FD]"
    if "a = [0x6771, 0x4EAC, 0x90FD] @ rest" for rest
    using nl that by (rule prefecture_tokyo)
  show ?thesis
    unfolding pref Some using one shortest tokyo by simp
qed

lemma prefecture_of_example_detail:
  "extract_shrine_info example_detail ''address'' =
     Some ([0x6771, 0x4EAC, 0x90FD] @ [0x5343, 0x4EE3, 0x7530, 0x533A]) \<and>
   extract_shrine_info example_detail ''prefecture'' = Some [0x6771, 0x4EAC, 0x90FD]"
proof -
  have a: "extract_shrine_info example_detail ''address'' =
     Some ([0x6771, 0x4EAC, 0x90FD] @ [0x5343, 0x4EE3, 0x7530, 0x533A])"
    using address_example_detail by (simp add: example_address_def)
  from prefecture_from_address [of example_detail] a
  have "extract_shrine_info example_detail ''prefecture'' = Some [0x6771, 0x4EAC, 0x90FD]"
    by blast
  with a show ?thesis by blast
qed


lemmas page_defs = example_page_def kyoto_city_def kyoto_prefecture_def example_address_def

lemmas address_eval = info_address search_group_def clean_address_def re_sub_def py_strip_def
  class_defs pattern_defs

text \<open>
  C6. The prefecture is set if and only if the cleaned address starts with a token that
  ends in one of the four suffixes, and an address with no such start has no prefecture.
  The code takes the start of the address up to the first suffix character after the
  first position, whatever stands before it: the address of the city of Kyoto, with no
  prefecture, gets the prefecture of the first two characters of the name of the city; an
  address that starts with the digits of a postal code and a space gets a prefecture that
  starts with these digits and the space; and the address that starts with the prefecture
  of Kyoto gets the first two of its three characters.
\<close>

theorem prefecture_is_not_the_leading_token:
  "extract_shrine_info (example_page kyoto_city) ''address'' = Some kyoto_city \<and>
   extract_shrine_info (example_page kyoto_city) ''prefecture'' = Some [0x4EAC, 0x90FD] \<and>
   extract_shrine_info (example_page (asc ''100-0001 '' @ example_address)) ''address'' =
     Some (asc ''100-0001 '' @ example_address) \<and>
   extract_shrine_info (example_page (asc ''100-0001 '' @ example_address)) ''prefecture'' =
     Some (asc ''100-0001 '' @ [0x6771, 0x4EAC, 0x90FD]) \<and>
   extract_shrine_info (example_page kyoto_prefecture) ''address'' = Some kyoto_prefecture \<and>
   extract_shrine_info (example_page kyoto_prefecture) ''prefecture'' = Some [0x4EAC, 0x90FD]"
proof -
  have a1: "extract_shrine_info (example_page kyoto_city) ''address'' = Some kyoto_city"
    by (simp add: address_eval page_defs)
  have a2: "extract_shrine_info (example_page (asc ''100-0001 '' @ example_address)) ''address'' =
     Some (asc ''100-0001 '' @ example_address)"
    by (simp add: address_eval page_defs)
  have a3: "extract_shrine_info (example_page kyoto_prefecture) ''address'' = Some kyoto_prefecture"
    by (simp add: address_eval page_defs)
  have p1: "extract_shrine_info (example_page kyoto_city) ''prefecture'' = Some [0x4EAC, 0x90FD]"
    by (simp add: info_prefecture a1) (simp add: re_match_def kyoto_city_def pattern_defs)
  have p2: "extract_shrine_info (example_page (asc ''100-0001 '' @ example_address)) ''prefecture'' =
     Some (asc ''100-0001 '' @ [0x6771, 0x4EAC, 0x90FD])"
    by (simp add: info_prefecture a2) (simp add: re_match_def example_address_def pattern_defs)
  have p3: "extract_shrine_info (example_page kyoto_prefecture) ''prefecture'' = Some [0x4EAC, 0x90FD]"
    by (simp add: info_prefecture a3) (simp add: re_match_def kyoto_prefecture_def pattern_defs)
  from a1 p1 a2 p2 a3 p3 show ?thesis by (intro conjI)
qed

section \<open>The postal code\<close>











text \<open>\<open>re.sub\<close> copies a start of the text at which no match can begin.\<close>

lemma sub_from_prefix:
  "(\<forall>x \<in> set pre. \<forall>t. bt p (x # t) [] None = None) \<Longrightarrow>
   sub_from p r 0 (pre @ s) = pre @ sub_from p r 0 s"
  by (induction pre) simp_all

lemma sub_from_no_start:
  "(\<forall>x \<in> set s. \<forall>t. bt p (x # t) [] None = None) \<Longrightarrow> sub_from p r 0 s = s"
  using sub_from_prefix [of s p r "[]"] by simp


lemma bt_postal_start: "x \<noteq> postal_mark \<Longrightarrow> bt postal_strip_pattern (x # t) g c = None"
  by (simp add: postal_strip_pattern_def)











lemma re_sub_postal_free:
  "postal_mark \<notin> set s \<Longrightarrow> re_sub postal_strip_pattern r s = s"
  unfolding re_sub_def by (rule sub_from_no_start) (auto intro!: bt_postal_start)









end
